theory Spec2Isabelle
  imports Main
begin

section \<open>Draft synchronisation between the database and Gmail\<close>

text \<open>
  The synchronisation code of the backend is documented, with its Python text, in the
  note on bidirectional Gmail sync (\<^verbatim>\<open>src/unnamed/part_001\<close>): the loop added to
  \<^verbatim>\<open>list_drafts_tool\<close> (lines 58-75) and the block added to
  \<^verbatim>\<open>select_draft_tool\<close> (lines 86-98). Both are embedded below, statement by
  statement.
\<close>

subsection \<open>Python values\<close>

text \<open>
  A value that is a Python \<^verbatim>\<open>str\<close> or \<^verbatim>\<open>None\<close>: \<open>None\<close> is Python's
  \<^verbatim>\<open>None\<close>, \<open>Some s\<close> the string \<open>s\<close>.
\<close>

type_synonym pystr = "string option"

text \<open>
  Truth value testing, as \<^verbatim>\<open>if v:\<close> and \<^verbatim>\<open>v or w\<close> do it: \<^verbatim>\<open>None\<close> and the
  empty string are false, every other string is true (a string of blanks too).
\<close>

definition truthy :: "pystr \<Rightarrow> bool" where
  "truthy v = (case v of None \<Rightarrow> False | Some s \<Rightarrow> s \<noteq> [])"

text \<open>\<^verbatim>\<open>a or b\<close>: the left operand when it is true, the right operand otherwise.\<close>

definition py_or :: "pystr \<Rightarrow> pystr \<Rightarrow> pystr" where
  "py_or a b = (if truthy a then a else b)"

subsection \<open>Data model\<close>

text \<open>
  The dictionary \<^verbatim>\<open>_fetch_gmail_draft\<close> returns on success
  (\<^verbatim>\<open>{'to_email': str, 'subject': str, 'body': str}\<close>, part_001 line 36), one field
  per key.
\<close>

record gmail_content =
  to_email :: pystr
  subject :: pystr
  body :: pystr

text \<open>
  A row of the drafts table. The sync code reads \<^verbatim>\<open>gmail_draft_id\<close> and assigns
  \<^verbatim>\<open>to_email\<close>, \<^verbatim>\<open>subject\<close> and \<^verbatim>\<open>body\<close>; the note lists status, expiry
  time and created date as the columns the sync leaves alone (part_001 lines 198-201);
  the identifier and the owner are the remaining columns the specification names.
\<close>

record draft =
  draft_id :: string
  user_id :: string
  gmail_draft_id :: pystr
  to_email :: pystr
  subject :: pystr
  body :: pystr
  status :: string
  expires_at :: nat
  created_at :: nat

text \<open>What the code does to the outside world, in the order it does it.\<close>

datatype effect = FetchGmailDraft string | DbCommit

datatype error = CommitFailed

text \<open>
  \<^verbatim>\<open>_fetch_gmail_draft\<close> as its callers see it: the remote store's answer for a draft
  id, \<open>None\<close> when the fetch failed. The remote store is held fixed during one call of
  a tool.
\<close>

type_synonym fetcher = "string \<Rightarrow> gmail_content option"

subsection \<open>The merge\<close>

text \<open>
  The block under \<^verbatim>\<open>if gmail_content:\<close> (part_001 lines 65-70 and 91-95). The flag
  of the result says whether the block ran, that is whether \<^verbatim>\<open>synced_count\<close> was
  incremented: the code keeps no other record of a change.
  \<^verbatim>\<open>
  if gmail_content:
      draft.to_email = gmail_content['to_email'] or draft.to_email
      draft.subject = gmail_content['subject'] or draft.subject
      draft.body = gmail_content['body'] or draft.body
      synced_count += 1
  \<close>
\<close>

definition reconcile :: "draft \<Rightarrow> gmail_content option \<Rightarrow> draft \<times> bool" where
  "reconcile d gmail =
     (case gmail of
        None \<Rightarrow> (d, False)
      | Some g \<Rightarrow>
          (d\<lparr>draft.to_email := py_or (gmail_content.to_email g) (draft.to_email d),
             draft.subject := py_or (gmail_content.subject g) (draft.subject d),
             draft.body := py_or (gmail_content.body g) (draft.body d)\<rparr>,
           True))"

text \<open>
  One round of the loop (part_001 lines 63-70): the fetch is made only for a draft whose
  \<^verbatim>\<open>gmail_draft_id\<close> is true.
\<close>

definition sync_draft :: "fetcher \<Rightarrow> draft \<Rightarrow> draft \<times> effect list \<times> bool" where
  "sync_draft fetch d =
     (case gmail_draft_id d of
        None \<Rightarrow> (d, [], False)
      | Some gid \<Rightarrow>
          if gid = [] then (d, [], False)
          else (fst (reconcile d (fetch gid)), [FetchGmailDraft gid],
                snd (reconcile d (fetch gid))))"

text \<open>
  The loop \<^verbatim>\<open>for draft in drafts:\<close> with its counter: the drafts after the loop, the
  fetches made, and \<^verbatim>\<open>synced_count\<close>.
\<close>

fun sync_loop :: "fetcher \<Rightarrow> draft list \<Rightarrow> nat \<Rightarrow> draft list \<times> effect list \<times> nat" where
  "sync_loop fetch [] synced_count = ([], [], synced_count)"
| "sync_loop fetch (d # ds) synced_count =
     (case sync_draft fetch d of
        (d', calls, synced) \<Rightarrow>
          (case sync_loop fetch ds (if synced then synced_count + 1 else synced_count) of
             (ds', calls', n) \<Rightarrow> (d' # ds', calls @ calls', n)))"

text \<open>
  The sync logic of \<^verbatim>\<open>list_drafts_tool\<close> (part_001 lines 60-74). \<open>commit_ok\<close> says
  whether \<^verbatim>\<open>db.commit()\<close> returns; when it raises, the exception leaves the tool.
  \<^verbatim>\<open>
  synced_count = 0
  for draft in drafts: ...
  if synced_count > 0:
      db.commit()
  \<close>
\<close>

definition list_drafts_tool ::
  "fetcher \<Rightarrow> bool \<Rightarrow> draft list \<Rightarrow> effect list \<times> (error + draft list)" where
  "list_drafts_tool fetch commit_ok drafts =
     (case sync_loop fetch drafts 0 of
        (drafts', calls, synced_count) \<Rightarrow>
          if synced_count > 0
          then (calls @ [DbCommit], if commit_ok then Inr drafts' else Inl CommitFailed)
          else (calls, Inr drafts'))"

text \<open>
  The sync block of \<^verbatim>\<open>select_draft_tool\<close> (part_001 lines 88-96): the fetch and the
  merge of the selected draft. The note prints this block alone; what the function does
  before and after it is not part of this definition.
  \<^verbatim>\<open>
  if selected_draft.gmail_draft_id:
      gmail_content = _fetch_gmail_draft(selected_draft.gmail_draft_id)
      if gmail_content:
          selected_draft.to_email = gmail_content['to_email'] or selected_draft.to_email
          selected_draft.subject = gmail_content['subject'] or selected_draft.subject
          selected_draft.body = gmail_content['body'] or selected_draft.body
  \<close>
\<close>

definition select_draft_tool :: "fetcher \<Rightarrow> draft \<Rightarrow> effect list \<times> draft" where
  "select_draft_tool fetch selected_draft =
     (case gmail_draft_id selected_draft of
        None \<Rightarrow> ([], selected_draft)
      | Some gid \<Rightarrow>
          if gid = [] then ([], selected_draft)
          else ([FetchGmailDraft gid], fst (reconcile selected_draft (fetch gid))))"

subsection \<open>The specification's vocabulary\<close>

text \<open>
  The specification's reading of an empty remote value, in its own words: the value is
  missing, or it is an empty or whitespace-only string. \<open>spec_nonempty\<close> is its
  "present and non-empty".
\<close>

definition is_space :: "char \<Rightarrow> bool" where
  "is_space c = (c \<in> set [CHR '' '', CHR 0x09, CHR 0x0A, CHR 0x0B, CHR 0x0C, CHR 0x0D])"

definition spec_nonempty :: "pystr \<Rightarrow> bool" where
  "spec_nonempty v = (case v of None \<Rightarrow> False | Some s \<Rightarrow> \<not> list_all is_space s)"

text \<open>
  The specification's "at least one field actually differs", between a record before
  and after a reconciliation.
\<close>

definition spec_changed :: "draft \<Rightarrow> draft \<Rightarrow> bool" where
  "spec_changed d d' =
     (\<not> (draft.to_email d' = draft.to_email d \<and> draft.subject d' = draft.subject d \<and>
         draft.body d' = draft.body d))"

text \<open>The fields the reconciliation has no authority over.\<close>

definition protected :: "draft \<Rightarrow> string \<times> nat \<times> nat \<times> string \<times> string \<times> pystr" where
  "protected d = (status d, expires_at d, created_at d, draft_id d, user_id d, gmail_draft_id d)"

text \<open>The remote references of a list of drafts that are true, in the order of the list.\<close>

fun remote_refs :: "draft list \<Rightarrow> string list" where
  "remote_refs [] = []"
| "remote_refs (d # ds) =
     (case gmail_draft_id d of
        None \<Rightarrow> remote_refs ds
      | Some gid \<Rightarrow> if gid = [] then remote_refs ds else gid # remote_refs ds)"

subsection \<open>The Select operation\<close>


subsection \<open>The fetcher\<close>

text \<open>
  Modelled from the spec: the body of \<^verbatim>\<open>_fetch_gmail_draft\<close>. The repository's
  sources at hand hold its signature, its docstring, the list of its steps (part_001
  lines 40-52) and its exception handler (lines 276-280), not its text. The steps are
  the specification's section 4.1: get the service, get the draft by id, decode the raw
  message, take the \<^verbatim>\<open>To\<close> and \<^verbatim>\<open>Subject\<close> headers by name (an absent header
  is the empty string), take the first \<^verbatim>\<open>text/plain\<close> part as the body (the empty
  string when there is none). An exception in any step is caught and becomes \<open>None\<close>.
\<close>

datatype gmail_failure = TokenExpired | HttpError nat | MalformedMessage

record email_message =
  headers :: "(string \<times> string) list"
  parts :: "(string \<times> string) list"

text \<open>
  Modelled from the spec: the Gmail client as the fetcher uses it. Each call returns (\<open>Inr\<close>) or raises
  (\<open>Inl\<close>). \<open>get_service\<close> returns whether a service is at hand, \<open>drafts_get\<close>
  the raw message of a draft (\<open>None\<close> for a draft with no message),
  \<open>decode_message\<close> the decoded and parsed message.
\<close>

record gmail_client =
  get_service :: "gmail_failure + bool"
  drafts_get :: "string \<Rightarrow> gmail_failure + string option"
  decode_message :: "string \<Rightarrow> gmail_failure + email_message"

text \<open>
  Modelled from the spec: a header taken by name, the empty string when the message has
  no such header; the body, the first plain-text part or the empty string.
\<close>

definition header :: "email_message \<Rightarrow> string \<Rightarrow> string" where
  "header msg name = (case map_of (headers msg) name of None \<Rightarrow> [] | Some v \<Rightarrow> v)"

definition plain_body :: "email_message \<Rightarrow> string" where
  "plain_body msg =
     (case filter (\<lambda>p. fst p = ''text/plain'') (parts msg) of
        [] \<Rightarrow> []
      | p # _ \<Rightarrow> snd p)"

text \<open>
  Modelled from the spec: the statements under \<^verbatim>\<open>try:\<close>. \<open>Inl\<close> is an exception
  raised by one of them; a missing service and a draft with no message return \<open>None\<close>
  (part_001 lines 49-50 and 248).
\<close>

definition fetch_steps :: "gmail_client \<Rightarrow> string \<Rightarrow> gmail_failure + gmail_content option" where
  "fetch_steps client gid =
     (case get_service client of
        Inl e \<Rightarrow> Inl e
      | Inr available \<Rightarrow>
          if \<not> available then Inr None
          else
            (case drafts_get client gid of
               Inl e \<Rightarrow> Inl e
             | Inr None \<Rightarrow> Inr None
             | Inr (Some raw) \<Rightarrow>
                 (case decode_message client raw of
                    Inl e \<Rightarrow> Inl e
                  | Inr msg \<Rightarrow>
                      Inr (Some \<lparr>gmail_content.to_email = Some (header msg ''To''),
                                 subject = Some (header msg ''Subject''),
                                 body = Some (plain_body msg)\<rparr>))))"

text \<open>
  Modelled from the spec: the function with its handler
  (\<^verbatim>\<open>except Exception as e: ... return None\<close>, part_001 lines 276-280). The result
  is \<open>Inl\<close> when an exception reaches the caller.
\<close>

definition fetch_gmail_draft :: "gmail_client \<Rightarrow> string \<Rightarrow> gmail_failure + gmail_content option" where
  "fetch_gmail_draft client gid =
     (case fetch_steps client gid of Inl e \<Rightarrow> Inr None | Inr r \<Rightarrow> Inr r)"

subsection \<open>Sample data\<close>

text \<open>The scenario of the specification's section 8 and of the note's first example.\<close>

definition meeting_draft :: draft where
  "meeting_draft =
     \<lparr>draft_id = ''d1'', user_id = ''628118491177@c.us'', gmail_draft_id = Some ''abc123'',
      to_email = Some ''alice@example.com'', subject = Some ''Meeting'',
      body = Some ''Meeting at 2 PM'', status = ''draft'', expires_at = 600,
      created_at = 100\<rparr>"

definition edited_snapshot :: gmail_content where
  "edited_snapshot =
     \<lparr>gmail_content.to_email = Some ''a@b.com'', subject = Some [],
      body = Some ''Meeting at 3 PM''\<rparr>"

definition blank_subject_snapshot :: gmail_content where
  "blank_subject_snapshot =
     \<lparr>gmail_content.to_email = Some ''alice@example.com'', subject = Some '' '',
      body = Some ''Meeting at 2 PM''\<rparr>"

definition same_snapshot :: gmail_content where
  "same_snapshot =
     \<lparr>gmail_content.to_email = Some ''alice@example.com'', subject = Some ''Meeting'',
      body = Some ''Meeting at 2 PM''\<rparr>"

definition local_draft :: draft where
  "local_draft = meeting_draft\<lparr>draft_id := ''d3'', gmail_draft_id := None\<rparr>"

text \<open>
  The list scenario of the specification's section 8: five records, three of them with a
  remote reference (one fetch fails, two return edited content) and two without.
\<close>

definition five_drafts :: "draft list" where
  "five_drafts =
     [meeting_draft,
      meeting_draft\<lparr>draft_id := ''d2'', gmail_draft_id := Some ''def456''\<rparr>,
      local_draft,
      meeting_draft\<lparr>draft_id := ''d4'', gmail_draft_id := Some ''ghi789''\<rparr>,
      local_draft\<lparr>draft_id := ''d5'', gmail_draft_id := Some []\<rparr>]"

definition five_fetch :: fetcher where
  "five_fetch gid = (if gid = ''def456'' then None else Some edited_snapshot)"

definition edited_draft :: draft where
  "edited_draft = meeting_draft\<lparr>to_email := Some ''a@b.com'', body := Some ''Meeting at 3 PM''\<rparr>"

text \<open>A Gmail client whose draft \<^verbatim>\<open>abc123\<close> is a message with no header and no part.\<close>

definition bare_client :: gmail_client where
  "bare_client =
     \<lparr>get_service = Inr True,
      drafts_get = (\<lambda>gid. if gid = ''abc123'' then Inr (Some ''raw'') else Inl (HttpError 404)),
      decode_message = (\<lambda>raw. Inr \<lparr>headers = [], parts = []\<rparr>)\<rparr>"

section \<open>The WhatsApp message handler\<close>

text \<open>
  \<^verbatim>\<open>handleMessage\<close> of the Node.js frontend, in its two versions:
  \<^verbatim>\<open>src/frontend/src/index.js\<close> (text messages only) and
  \<^verbatim>\<open>src/unnamed/part_000\<close> (with document attachments). The handler's result is the
  sequence of its calls to the chat, to the message and to the backend; console output
  is left out.
\<close>

record config =
  allowedNumbers :: "string list"

record chat =
  isGroup :: bool

record message =
  from' :: string
  broadcast :: bool
  fromMe :: bool
  body :: string
  hasMedia :: bool

record media =
  mimetype :: string
  filename :: string
  data :: string

record fileData =
  data :: string
  name :: string
  mime :: string

datatype download = DownloadThrows | NoMedia | Downloaded media

datatype action =
    DownloadMedia
  | SendStateTyping
  | PostChat string string "fileData option"
  | ClearState
  | Reply string

text \<open>
  What the handler meets outside: the outcome of \<^verbatim>\<open>message.downloadMedia()\<close>, the
  backend's answer to \<^verbatim>\<open>POST /chat\<close> (\<open>None\<close> when the request fails), and
  whether \<^verbatim>\<open>message.reply\<close> throws.
\<close>

record world =
  download :: download
  post_chat :: "string \<Rightarrow> string \<Rightarrow> fileData option \<Rightarrow> string option"
  reply_throws :: bool

record agent_result =
  success :: bool
  response :: string

text \<open>
  \<^verbatim>\<open>sendMessageToAgent\<close> (api.js): one request to the backend; a failure is caught
  and becomes a result with a fixed apology.
\<close>

definition sendMessageToAgent ::
  "world \<Rightarrow> string \<Rightarrow> string \<Rightarrow> fileData option \<Rightarrow> action list \<times> agent_result" where
  "sendMessageToAgent w userId text file =
     ([PostChat userId text file],
      case post_chat w userId text file of
        Some answer \<Rightarrow> \<lparr>success = True, response = answer\<rparr>
      | None \<Rightarrow>
          \<lparr>success = False,
           response = ''I'm having trouble connecting to my brain right now. Please try again in a moment.''\<rparr>)"

text \<open>\<^verbatim>\<open>userId.split('@')[0]\<close>: the part of the user id before the first \<^verbatim>\<open>@\<close>.\<close>

definition phoneNumber :: "string \<Rightarrow> string" where
  "phoneNumber userId = takeWhile (\<lambda>c. c \<noteq> CHR ''@'') userId"

text \<open>
  The characters \<^verbatim>\<open>trim()\<close> strips, among the code units a \<open>char\<close> can hold: tab,
  line feed, vertical tab, form feed, carriage return, space and the no-break space
  (the others, such as U+FEFF and U+2028, lie beyond that range).
\<close>

definition js_space :: "char \<Rightarrow> bool" where
  "js_space c =
     (c \<in> set [CHR 0x09, CHR 0x0A, CHR 0x0B, CHR 0x0C, CHR 0x0D, CHR 0x20, CHR 0xA0])"

text \<open>\<^verbatim>\<open>!text || text.trim() === ''\<close>: the text is empty or whitespace only.\<close>

definition blank :: "string \<Rightarrow> bool" where
  "blank text = list_all js_space text"

definition fallback :: string where
  "fallback = ''I apologize, but I'm having technical difficulties right now. Please try again in a moment.''"

text \<open>
  The end of both versions: typing indicator, request, reply. Both branches of
  \<^verbatim>\<open>if (result.success)\<close> reply with \<^verbatim>\<open>result.response\<close>; when the reply throws,
  the handler's \<^verbatim>\<open>catch\<close> tries to reply with the fallback text.
\<close>

definition respond :: "world \<Rightarrow> string \<Rightarrow> string \<Rightarrow> fileData option \<Rightarrow> action list" where
  "respond w userId text file =
     (case sendMessageToAgent w userId text file of
        (sent, result) \<Rightarrow>
          [SendStateTyping] @ sent @ [ClearState, Reply (response result)] @
          (if reply_throws w then [Reply fallback] else []))"

text \<open>The access check of both versions: true when the sender is turned away.\<close>

definition access_denied :: "config \<Rightarrow> string \<Rightarrow> bool" where
  "access_denied cfg userId =
     (if length (allowedNumbers cfg) > 0
      then phoneNumber userId \<notin> set (allowedNumbers cfg)
      else False)"

text \<open>\<^verbatim>\<open>handleMessage\<close> of \<^verbatim>\<open>src/frontend/src/index.js\<close>.\<close>

definition handleMessage :: "config \<Rightarrow> world \<Rightarrow> chat \<Rightarrow> message \<Rightarrow> action list" where
  "handleMessage cfg w ch msg =
     (if isGroup ch then []
      else if from' msg = ''status@broadcast'' \<or> broadcast msg then []
      else if fromMe msg then []
      else if blank (message.body msg) then []
      else if access_denied cfg (from' msg) then []
      else respond w (from' msg) (message.body msg) None)"

text \<open>
  \<^verbatim>\<open>getExtensionFromMimetype\<close> and the supported types of
  \<^verbatim>\<open>src/unnamed/part_000\<close>. \<^verbatim>\<open>mimeMap\<close> is an object literal, so a lookup
  finds its eight keys and also the members it inherits from \<^verbatim>\<open>Object.prototype\<close>,
  which are true values that are not strings; every other key gives \<^verbatim>\<open>'bin'\<close>.
\<close>

datatype js_value = Str string | Inherited string

definition objectPrototype :: "string list" where
  "objectPrototype =
     [''constructor'', ''__defineGetter__'', ''__defineSetter__'', ''hasOwnProperty'',
      ''__lookupGetter__'', ''__lookupSetter__'', ''isPrototypeOf'', ''propertyIsEnumerable'',
      ''toString'', ''valueOf'', ''__proto__'', ''toLocaleString'']"

definition mimeMap :: "(string \<times> string) list" where
  "mimeMap =
     [(''application/pdf'', ''pdf''),
      (''application/vnd.openxmlformats-officedocument.wordprocessingml.document'', ''docx''),
      (''application/vnd.openxmlformats-officedocument.presentationml.presentation'', ''pptx''),
      (''application/vnd.openxmlformats-officedocument.spreadsheetml.sheet'', ''xlsx''),
      (''application/vnd.ms-excel'', ''xls''),
      (''text/csv'', ''csv''),
      (''text/plain'', ''txt''),
      (''application/msword'', ''doc'')]"

definition getExtensionFromMimetype :: "string \<Rightarrow> js_value" where
  "getExtensionFromMimetype mt =
     (case map_of mimeMap mt of
        Some ext \<Rightarrow> Str ext
      | None \<Rightarrow> if mt \<in> set objectPrototype then Inherited mt else Str ''bin'')"

text \<open>
  A value inside a template literal: a string as it is, an inherited member as its
  conversion to a string.
\<close>

definition template_text :: "js_value \<Rightarrow> string" where
  "template_text v =
     (case v of
        Str s \<Rightarrow> s
      | Inherited member \<Rightarrow>
          if member = ''__proto__'' then ''[object Object]''
          else if member = ''constructor'' then ''function Object() { [native code] }''
          else ''function '' @ member @ ''() { [native code] }'')"

definition supportedTypes :: "string list" where
  "supportedTypes =
     [''application/pdf'',
      ''application/vnd.openxmlformats-officedocument.wordprocessingml.document'',
      ''application/vnd.openxmlformats-officedocument.presentationml.presentation'',
      ''application/vnd.openxmlformats-officedocument.spreadsheetml.sheet'',
      ''application/vnd.ms-excel'',
      ''text/csv'',
      ''text/plain'',
      ''application/msword'']"

text \<open>
  The attachment block of part_000 (lines 55-111): \<open>None\<close> when the handler returns
  inside it, otherwise the file to send and the message text.
\<close>

definition attachment :: "world \<Rightarrow> string \<Rightarrow> (fileData option \<times> string) option" where
  "attachment w messageText =
     (case download w of
        DownloadThrows \<Rightarrow> Some (None, messageText)
      | NoMedia \<Rightarrow> Some (None, messageText)
      | Downloaded m \<Rightarrow>
          if mimetype m \<in> set supportedTypes
          then Some
            (Some \<lparr>fileData.data = media.data m,
                   name = (if filename m \<noteq> [] then filename m
                           else ''document.'' @ template_text (getExtensionFromMimetype (mimetype m))),
                   mime = mimetype m\<rparr>,
             if blank messageText then ''Please summarize this document.'' else messageText)
          else if blank messageText then None
          else Some (None, messageText))"

text \<open>\<^verbatim>\<open>handleMessage\<close> of \<^verbatim>\<open>src/unnamed/part_000\<close>.\<close>

definition handleMessage_attachments ::
  "config \<Rightarrow> world \<Rightarrow> chat \<Rightarrow> message \<Rightarrow> action list" where
  "handleMessage_attachments cfg w ch msg =
     (if isGroup ch then []
      else if from' msg = ''status@broadcast'' \<or> broadcast msg then []
      else if fromMe msg then []
      else if access_denied cfg (from' msg) then []
      else if hasMedia msg
      then (case attachment w (message.body msg) of
              None \<Rightarrow> [DownloadMedia]
            | Some (file, messageText) \<Rightarrow>
                if blank messageText then [DownloadMedia]
                else DownloadMedia # respond w (from' msg) messageText file)
      else if blank (message.body msg) then []
      else respond w (from' msg) (message.body msg) None)"

subsection \<open>Sample messages\<close>

definition restricted :: config where
  "restricted = \<lparr>allowedNumbers = [''628118491177'']\<rparr>"

definition echo_world :: world where
  "echo_world =
     \<lparr>download = NoMedia, post_chat = (\<lambda>userId text file. Some text), reply_throws = False\<rparr>"

definition private_chat :: chat where
  "private_chat = \<lparr>isGroup = False\<rparr>"

definition stranger_message :: message where
  "stranger_message =
     \<lparr>from' = ''15550001111@c.us'', broadcast = False, fromMe = False,
      body = ''show my drafts'', hasMedia = True\<rparr>"

definition owner_message :: message where
  "owner_message = stranger_message\<lparr>from' := ''628118491177@c.us''\<rparr>"

section \<open>Properties of the merge\<close>

lemma truthy_iff: "truthy v \<longleftrightarrow> v \<noteq> None \<and> v \<noteq> Some []"
  by (cases v) (simp_all add: truthy_def)

lemma py_or_idem: "py_or a (py_or a b) = py_or a b"
  by (simp add: py_or_def)

lemma reconcile_Some:
  "reconcile d (Some g) =
     (d\<lparr>draft.to_email := py_or (gmail_content.to_email g) (draft.to_email d),
        draft.subject := py_or (gmail_content.subject g) (draft.subject d),
        draft.body := py_or (gmail_content.body g) (draft.body d)\<rparr>, True)"
  by (simp add: reconcile_def)

lemma reconcile_None: "reconcile d None = (d, False)"
  by (simp add: reconcile_def)

lemma protected_reconcile: "protected (fst (reconcile d r)) = protected d"
  by (cases r) (simp_all add: reconcile_def protected_def)

lemma protected_sync_draft: "protected (fst (sync_draft fetch d)) = protected d"
  by (simp add: sync_draft_def protected_reconcile split: option.splits)

lemma sync_loop_Cons:
  "sync_loop fetch (d # ds) n =
     (fst (sync_draft fetch d) #
        fst (sync_loop fetch ds (if snd (snd (sync_draft fetch d)) then n + 1 else n)),
      fst (snd (sync_draft fetch d)) @
        fst (snd (sync_loop fetch ds (if snd (snd (sync_draft fetch d)) then n + 1 else n))),
      snd (snd (sync_loop fetch ds (if snd (snd (sync_draft fetch d)) then n + 1 else n))))"
  by (simp add: case_prod_beta)

lemma sync_loop_drafts:
  "fst (sync_loop fetch ds n) = map (\<lambda>d. fst (sync_draft fetch d)) ds"
  by (induction ds arbitrary: n) (simp_all only: sync_loop_Cons sync_loop.simps(1) fst_conv list.map)

lemma sync_draft_calls:
  "fst (snd (sync_draft fetch d)) = map FetchGmailDraft (remote_refs [d])"
  by (simp add: sync_draft_def split: option.splits)

lemma remote_refs_Cons: "remote_refs (d # ds) = remote_refs [d] @ remote_refs ds"
  by (simp split: option.splits)

lemma sync_loop_calls:
  "fst (snd (sync_loop fetch ds n)) = map FetchGmailDraft (remote_refs ds)"
proof (induction ds arbitrary: n)
  case Nil
  show ?case by simp
next
  case (Cons d ds)
  have "fst (snd (sync_loop fetch (d # ds) n)) =
        map FetchGmailDraft (remote_refs [d]) @ map FetchGmailDraft (remote_refs ds)"
    by (simp only: sync_loop_Cons fst_conv snd_conv Cons.IH sync_draft_calls)
  also have "\<dots> = map FetchGmailDraft (remote_refs (d # ds))"
    by (subst (2) remote_refs_Cons) simp
  finally show ?case .
qed

lemma sync_draft_synced:
  "snd (snd (sync_draft fetch d)) = list_ex (\<lambda>gid. fetch gid \<noteq> None) (remote_refs [d])"
  by (auto simp: sync_draft_def reconcile_def split: option.splits)

lemma sync_loop_count_mono: "n \<le> snd (snd (sync_loop fetch ds n))"
proof (induction ds arbitrary: n)
  case Nil
  show ?case by simp
next
  case (Cons d ds)
  let ?n = "if snd (snd (sync_draft fetch d)) then n + 1 else n"
  have "n \<le> ?n" by simp
  also have "?n \<le> snd (snd (sync_loop fetch ds ?n))" by (rule Cons.IH)
  finally show ?case by (simp only: sync_loop_Cons snd_conv)
qed

lemma sync_loop_count:
  "n < snd (snd (sync_loop fetch ds n)) \<longleftrightarrow>
   list_ex (\<lambda>gid. fetch gid \<noteq> None) (remote_refs ds)"
proof (induction ds arbitrary: n)
  case Nil
  show ?case by simp
next
  case (Cons d ds)
  have refs: "list_ex (\<lambda>gid. fetch gid \<noteq> None) (remote_refs (d # ds)) \<longleftrightarrow>
        snd (snd (sync_draft fetch d)) \<or> list_ex (\<lambda>gid. fetch gid \<noteq> None) (remote_refs ds)"
    by (subst remote_refs_Cons) (simp add: sync_draft_synced)
  show ?case
  proof (cases "snd (snd (sync_draft fetch d))")
    case True
    have "n + 1 \<le> snd (snd (sync_loop fetch ds (n + 1)))" by (rule sync_loop_count_mono)
    then have "n < snd (snd (sync_loop fetch (d # ds) n))"
      using True by (simp only: sync_loop_Cons snd_conv if_True)
    with True refs show ?thesis by simp
  next
    case False
    then have "snd (snd (sync_loop fetch (d # ds) n)) = snd (snd (sync_loop fetch ds n))"
      by (simp only: sync_loop_Cons snd_conv if_False)
    with False refs Cons.IH [of n] show ?thesis by simp
  qed
qed

lemma list_drafts_tool_trace:
  "fst (list_drafts_tool fetch commit_ok drafts) =
     map FetchGmailDraft (remote_refs drafts) @
     (if list_ex (\<lambda>gid. fetch gid \<noteq> None) (remote_refs drafts) then [DbCommit] else [])"
  using sync_loop_calls [of fetch drafts 0] sync_loop_count [of 0 fetch drafts]
  by (cases "sync_loop fetch drafts 0") (simp add: list_drafts_tool_def)

lemma list_drafts_tool_result:
  "snd (list_drafts_tool fetch True drafts) = Inr (map (\<lambda>d. fst (sync_draft fetch d)) drafts)"
  using sync_loop_drafts [of fetch drafts 0]
  by (cases "sync_loop fetch drafts 0") (simp add: list_drafts_tool_def)

lemma remote_refs_member:
  "d \<in> set ds \<Longrightarrow> gmail_draft_id d = Some gid \<Longrightarrow> gid \<noteq> [] \<Longrightarrow> gid \<in> set (remote_refs ds)"
  by (induction ds) (auto split: option.splits)

lemma changed_needs_fetch:
  assumes "d \<in> set ds" and "spec_changed d (fst (sync_draft fetch d))"
  shows "list_ex (\<lambda>gid. fetch gid \<noteq> None) (remote_refs ds)"
proof -
  from assms(2) obtain gid where g: "gmail_draft_id d = Some gid" "gid \<noteq> []" "fetch gid \<noteq> None"
    by (auto simp: sync_draft_def reconcile_def spec_changed_def split: option.splits if_splits)
  with assms(1) have "gid \<in> set (remote_refs ds)" by (simp add: remote_refs_member)
  with g(3) show ?thesis by (auto simp: list_ex_iff)
qed



section \<open>The claims about the merge\<close>

text \<open>
  C1 (as amended). With an available snapshot, each of \<open>to_email\<close>, \<open>subject\<close> and
  \<open>body\<close> takes the remote value exactly when that value is neither \<^verbatim>\<open>None\<close> nor
  the empty string, and keeps the local value otherwise. A whitespace-only remote string
  is not empty for the code: it replaces the local value.
\<close>

theorem reconcile_prefers_nonempty_remote:
  "draft.to_email (fst (reconcile d (Some g))) =
     (if gmail_content.to_email g = None \<or> gmail_content.to_email g = Some []
      then draft.to_email d else gmail_content.to_email g) \<and>
   draft.subject (fst (reconcile d (Some g))) =
     (if gmail_content.subject g = None \<or> gmail_content.subject g = Some []
      then draft.subject d else gmail_content.subject g) \<and>
   draft.body (fst (reconcile d (Some g))) =
     (if gmail_content.body g = None \<or> gmail_content.body g = Some []
      then draft.body d else gmail_content.body g)"
  by (simp add: reconcile_Some py_or_def truthy_iff)

theorem reconcile_prefers_nonempty_remote_witness:
  "draft.to_email (fst (reconcile meeting_draft (Some edited_snapshot))) = Some ''a@b.com'' \<and>
   draft.subject (fst (reconcile meeting_draft (Some edited_snapshot))) = Some ''Meeting'' \<and>
   draft.body (fst (reconcile meeting_draft (Some edited_snapshot))) = Some ''Meeting at 3 PM''"
  using reconcile_prefers_nonempty_remote [of meeting_draft edited_snapshot]
  by (simp add: meeting_draft_def edited_snapshot_def)

text \<open>
  C1 as stated fails: a remote subject of one blank is empty in the specification's
  sense, and yet it replaces the local subject.
\<close>

theorem reconcile_blank_subject_counterexample:
  "\<not> spec_nonempty (gmail_content.subject blank_subject_snapshot) \<and>
   draft.subject meeting_draft = Some ''Meeting'' \<and>
   draft.subject (fst (reconcile meeting_draft (Some blank_subject_snapshot))) = Some '' '' \<and>
   draft.subject (fst (reconcile meeting_draft (Some blank_subject_snapshot))) \<noteq>
     draft.subject meeting_draft"
  by (simp add: reconcile_Some py_or_def truthy_def spec_nonempty_def is_space_def
      meeting_draft_def blank_subject_snapshot_def)

text \<open>
  C2. Whatever the local record and whatever the snapshot (available or not), the merge
  leaves \<open>status\<close>, \<open>expires_at\<close>, \<open>created_at\<close>, \<open>draft_id\<close>, \<open>user_id\<close> and
  \<open>gmail_draft_id\<close> as they were; so do one round of the loop, the whole loop of the
  list tool and the select tool.
\<close>

theorem reconcile_keeps_protected_fields:
  "status (fst (reconcile d r)) = status d \<and>
   expires_at (fst (reconcile d r)) = expires_at d \<and>
   created_at (fst (reconcile d r)) = created_at d \<and>
   draft_id (fst (reconcile d r)) = draft_id d \<and>
   user_id (fst (reconcile d r)) = user_id d \<and>
   gmail_draft_id (fst (reconcile d r)) = gmail_draft_id d \<and>
   protected (fst (sync_draft fetch d)) = protected d \<and>
   map protected (fst (sync_loop fetch ds n)) = map protected ds \<and>
   protected (snd (select_draft_tool fetch d)) = protected d"
proof -
  have "protected (fst (reconcile d r)) = protected d" by (rule protected_reconcile)
  moreover have "map protected (fst (sync_loop fetch ds n)) = map protected ds"
    by (simp add: sync_loop_drafts protected_sync_draft)
  moreover have "protected (snd (select_draft_tool fetch d)) = protected d"
    by (simp add: select_draft_tool_def protected_reconcile split: option.splits)
  moreover note protected_sync_draft [of fetch d]
  ultimately show ?thesis by (simp add: protected_def)
qed

theorem reconcile_keeps_protected_fields_witness:
  "status (fst (reconcile meeting_draft (Some edited_snapshot))) = ''draft'' \<and>
   expires_at (fst (reconcile meeting_draft (Some edited_snapshot))) = 600 \<and>
   created_at (fst (reconcile meeting_draft (Some edited_snapshot))) = 100 \<and>
   gmail_draft_id (fst (reconcile meeting_draft (Some edited_snapshot))) = Some ''abc123''"
  using reconcile_keeps_protected_fields [of meeting_draft "Some edited_snapshot" "\<lambda>_. None" "[]" 0]
  by (simp add: meeting_draft_def)

text \<open>
  C3. With an unavailable snapshot the merge returns the local record as it is and does
  not count it as synced. A record whose fetch fails leaves its round of the loop, and
  the select tool, as it was, whatever the other fetches return. A list call during
  which every fetch fails returns the local records, performs no commit and raises
  nothing, whether or not the database would accept a commit.
\<close>

theorem unavailable_snapshot_is_noop:
  "reconcile d None = (d, False) \<and>
   (gmail_draft_id d = Some gid \<and> fetch gid = None \<longrightarrow>
      fst (sync_draft fetch d) = d \<and> \<not> snd (snd (sync_draft fetch d)) \<and>
      snd (select_draft_tool fetch d) = d) \<and>
   snd (list_drafts_tool (\<lambda>_. None) commit_ok drafts) = Inr drafts \<and>
   fst (list_drafts_tool (\<lambda>_. None) commit_ok drafts) = map FetchGmailDraft (remote_refs drafts)"
proof -
  have one: "fst (sync_draft (\<lambda>_. None) x) = x" for x
    by (simp add: sync_draft_def reconcile_None split: option.splits)
  have count: "\<not> 0 < snd (snd (sync_loop (\<lambda>_. None) drafts 0))"
    by (simp add: sync_loop_count list_ex_iff)
  have "snd (list_drafts_tool (\<lambda>_. None) commit_ok drafts) = Inr drafts"
    using sync_loop_drafts [of "\<lambda>_. None" drafts 0] count
    by (cases "sync_loop (\<lambda>_. None) drafts 0") (simp add: list_drafts_tool_def one)
  moreover have "fst (list_drafts_tool (\<lambda>_. None) commit_ok drafts) =
      map FetchGmailDraft (remote_refs drafts)"
    by (simp add: list_drafts_tool_trace list_ex_iff)
  moreover have "gmail_draft_id d = Some gid \<and> fetch gid = None \<longrightarrow>
      fst (sync_draft fetch d) = d \<and> \<not> snd (snd (sync_draft fetch d)) \<and>
      snd (select_draft_tool fetch d) = d"
    by (simp add: sync_draft_def select_draft_tool_def reconcile_None)
  ultimately show ?thesis by (simp add: reconcile_None)
qed

theorem unavailable_snapshot_is_noop_witness:
  "reconcile meeting_draft None = (meeting_draft, False) \<and>
   gmail_draft_id (five_drafts ! 1) = Some ''def456'' \<and> five_fetch ''def456'' = None \<and>
   fst (sync_draft five_fetch (five_drafts ! 1)) = five_drafts ! 1 \<and>
   snd (select_draft_tool five_fetch (five_drafts ! 1)) = five_drafts ! 1 \<and>
   list_drafts_tool (\<lambda>_. None) False [meeting_draft, local_draft] =
     ([FetchGmailDraft ''abc123''], Inr [meeting_draft, local_draft])"
proof -
  have h: "gmail_draft_id (five_drafts ! 1) = Some ''def456'' \<and> five_fetch ''def456'' = None"
    by (simp add: five_drafts_def five_fetch_def)
  have l: "reconcile meeting_draft None = (meeting_draft, False) \<and>
     list_drafts_tool (\<lambda>_. None) False [meeting_draft, local_draft] =
     ([FetchGmailDraft ''abc123''], Inr [meeting_draft, local_draft])"
    using unavailable_snapshot_is_noop
      [of meeting_draft "''abc123''" "\<lambda>_. None" False "[meeting_draft, local_draft]"]
    by (simp add: prod_eq_iff meeting_draft_def local_draft_def)
  show ?thesis
    using h l unavailable_snapshot_is_noop [of "five_drafts ! 1" "''def456''" five_fetch False "[]"]
    by simp
qed

text \<open>
  C4 (as amended). The flag of the merge is true exactly when the snapshot is available,
  and a round of the loop counts a draft as synced exactly when the draft has a true
  remote reference and its fetch returned a snapshot. Whenever a field differs after the
  merge the flag is true; a successful fetch that changes nothing is counted as well.
\<close>

theorem reconcile_flag_is_fetch_success:
  "snd (reconcile d r) = (r \<noteq> None) \<and>
   snd (snd (sync_draft fetch d)) =
     (\<exists>gid. gmail_draft_id d = Some gid \<and> gid \<noteq> [] \<and> fetch gid \<noteq> None) \<and>
   (spec_changed d (fst (reconcile d r)) \<longrightarrow> snd (reconcile d r))"
proof -
  have "snd (reconcile d r) = (r \<noteq> None)" by (cases r) (simp_all add: reconcile_def)
  moreover have "snd (snd (sync_draft fetch d)) =
     (\<exists>gid. gmail_draft_id d = Some gid \<and> gid \<noteq> [] \<and> fetch gid \<noteq> None)"
    by (auto simp: sync_draft_def reconcile_def split: option.splits)
  moreover have "spec_changed d (fst (reconcile d r)) \<longrightarrow> snd (reconcile d r)"
    by (cases r) (simp_all add: reconcile_def spec_changed_def)
  ultimately show ?thesis by simp
qed

theorem reconcile_flag_is_fetch_success_witness:
  "spec_changed meeting_draft (fst (reconcile meeting_draft (Some edited_snapshot))) \<and>
   snd (reconcile meeting_draft (Some edited_snapshot))"
  using reconcile_flag_is_fetch_success [of meeting_draft "Some edited_snapshot" "\<lambda>_. None"]
  by (simp add: spec_changed_def reconcile_Some py_or_def truthy_def meeting_draft_def
      edited_snapshot_def)

text \<open>
  C4 as stated fails: a successful fetch whose content equals the local record leaves the
  record as it was, and the flag is true all the same.
\<close>

theorem reconcile_flag_counterexample:
  "fst (reconcile meeting_draft (Some same_snapshot)) = meeting_draft \<and>
   \<not> spec_changed meeting_draft (fst (reconcile meeting_draft (Some same_snapshot))) \<and>
   snd (reconcile meeting_draft (Some same_snapshot))"
  by (simp add: spec_changed_def reconcile_Some py_or_def truthy_def meeting_draft_def
      same_snapshot_def)

text \<open>
  C5. A record whose \<open>gmail_draft_id\<close> is \<^verbatim>\<open>None\<close> or empty goes through a round of
  the loop and through the select tool with no fetch, unchanged and not counted as
  synced; a list call over such records alone makes no fetch and no commit and returns
  them as they are, without error.
\<close>

theorem no_remote_reference_is_noop:
  assumes "\<not> truthy (gmail_draft_id d)" and "\<forall>x \<in> set drafts. \<not> truthy (gmail_draft_id x)"
  shows "sync_draft fetch d = (d, [], False) \<and>
         select_draft_tool fetch d = ([], d) \<and>
         list_drafts_tool fetch commit_ok drafts = ([], Inr drafts)"
proof -
  have one: "sync_draft fetch x = (x, [], False)" if "\<not> truthy (gmail_draft_id x)" for x
    using that by (auto simp: sync_draft_def truthy_def split: option.splits)
  have sel: "select_draft_tool fetch d = ([], d)"
    using assms(1) by (auto simp: select_draft_tool_def truthy_def split: option.splits)
  have loop: "sync_loop fetch drafts n = (drafts, [], n)" for n
    using assms(2) by (induction drafts arbitrary: n) (simp_all add: one)
  have "list_drafts_tool fetch commit_ok drafts = ([], Inr drafts)"
    by (simp add: list_drafts_tool_def loop)
  with one [OF assms(1)] sel show ?thesis by simp
qed

theorem no_remote_reference_is_noop_witness:
  "\<not> truthy (gmail_draft_id local_draft) \<and>
   sync_draft (\<lambda>_. Some edited_snapshot) local_draft = (local_draft, [], False) \<and>
   select_draft_tool (\<lambda>_. Some edited_snapshot) local_draft = ([], local_draft) \<and>
   list_drafts_tool (\<lambda>_. Some edited_snapshot) False [local_draft, local_draft] =
     ([], Inr [local_draft, local_draft])"
proof -
  have h: "\<not> truthy (gmail_draft_id local_draft)"
    by (simp add: truthy_def local_draft_def)
  have hs: "\<forall>x \<in> set [local_draft, local_draft]. \<not> truthy (gmail_draft_id x)"
    using h by simp
  show ?thesis
    using h no_remote_reference_is_noop [OF h hs, of "\<lambda>_. Some edited_snapshot" False]
    by simp
qed

text \<open>
  C6 (as amended). Merging the same snapshot a second time returns the record the first
  merge returned. The flag of the second merge is again true exactly when the snapshot
  is available: it is false only for an unavailable snapshot.
\<close>

theorem reconcile_idempotent_record:
  "fst (reconcile (fst (reconcile d r)) r) = fst (reconcile d r) \<and>
   snd (reconcile (fst (reconcile d r)) r) = (r \<noteq> None)"
  by (cases r) (simp_all add: reconcile_def py_or_idem)

theorem reconcile_idempotent_record_witness:
  "fst (reconcile (fst (reconcile meeting_draft (Some edited_snapshot))) (Some edited_snapshot)) =
     fst (reconcile meeting_draft (Some edited_snapshot)) \<and>
   \<not> snd (reconcile (fst (reconcile meeting_draft None)) None)"
  using reconcile_idempotent_record [of meeting_draft "Some edited_snapshot"]
    reconcile_idempotent_record [of meeting_draft None]
  by simp

text \<open>
  C6 as stated fails: the second merge of the same available snapshot changes nothing
  and still reports true.
\<close>

theorem reconcile_second_flag_counterexample:
  "fst (reconcile (fst (reconcile meeting_draft (Some edited_snapshot))) (Some edited_snapshot)) =
     fst (reconcile meeting_draft (Some edited_snapshot)) \<and>
   snd (reconcile (fst (reconcile meeting_draft (Some edited_snapshot))) (Some edited_snapshot))"
  by (simp add: reconcile_Some py_or_idem)

section \<open>The claims about the list and select tools\<close>

text \<open>
  C7 (as amended). A list call fetches exactly the records whose remote reference is
  true, in the order of the list, and then commits at most once, after the loop. The
  commit is made if and only if at least one fetch returned a snapshot: whenever a
  record changed, and also when the fetched content changed nothing. When the commit
  succeeds the call returns every record as its round of the loop left it.
\<close>

theorem list_fetches_referenced_and_commits_once:
  "fst (list_drafts_tool fetch commit_ok drafts) =
     map FetchGmailDraft (remote_refs drafts) @
     (if list_ex (\<lambda>gid. fetch gid \<noteq> None) (remote_refs drafts) then [DbCommit] else []) \<and>
   count_list (fst (list_drafts_tool fetch commit_ok drafts)) DbCommit \<le> 1 \<and>
   snd (list_drafts_tool fetch True drafts) = Inr (map (\<lambda>d. fst (sync_draft fetch d)) drafts) \<and>
   (list_ex (\<lambda>d. spec_changed d (fst (sync_draft fetch d))) drafts \<longrightarrow>
      DbCommit \<in> set (fst (list_drafts_tool fetch commit_ok drafts)))"
proof -
  have no_commit: "count_list (map FetchGmailDraft xs) DbCommit = 0" for xs
    by (induction xs) simp_all
  have "count_list (fst (list_drafts_tool fetch commit_ok drafts)) DbCommit \<le> 1"
    by (simp add: list_drafts_tool_trace no_commit)
  moreover have "list_ex (\<lambda>d. spec_changed d (fst (sync_draft fetch d))) drafts \<longrightarrow>
      DbCommit \<in> set (fst (list_drafts_tool fetch commit_ok drafts))"
  proof
    assume "list_ex (\<lambda>d. spec_changed d (fst (sync_draft fetch d))) drafts"
    then obtain d where "d \<in> set drafts" "spec_changed d (fst (sync_draft fetch d))"
      by (auto simp: list_ex_iff)
    then have "list_ex (\<lambda>gid. fetch gid \<noteq> None) (remote_refs drafts)"
      by (rule changed_needs_fetch)
    then show "DbCommit \<in> set (fst (list_drafts_tool fetch commit_ok drafts))"
      by (simp add: list_drafts_tool_trace)
  qed
  moreover note list_drafts_tool_trace [of fetch commit_ok drafts]
    list_drafts_tool_result [of fetch drafts]
  ultimately show ?thesis by blast
qed

theorem list_fetches_referenced_and_commits_once_witness:
  "list_ex (\<lambda>d. spec_changed d (fst (sync_draft five_fetch d))) five_drafts \<and>
   list_drafts_tool five_fetch True five_drafts =
     ([FetchGmailDraft ''abc123'', FetchGmailDraft ''def456'', FetchGmailDraft ''ghi789'',
       DbCommit],
      Inr [edited_draft, five_drafts ! 1, five_drafts ! 2,
           edited_draft\<lparr>draft_id := ''d4'', gmail_draft_id := Some ''ghi789''\<rparr>,
           five_drafts ! 4])"
proof -
  have ch: "list_ex (\<lambda>d. spec_changed d (fst (sync_draft five_fetch d))) five_drafts"
    by (simp add: five_drafts_def five_fetch_def sync_draft_def reconcile_def py_or_def
        truthy_def spec_changed_def meeting_draft_def edited_snapshot_def)
  have refs: "remote_refs five_drafts = [''abc123'', ''def456'', ''ghi789'']"
    by (simp add: five_drafts_def meeting_draft_def local_draft_def)
  have res: "map (\<lambda>d. fst (sync_draft five_fetch d)) five_drafts =
     [edited_draft, five_drafts ! 1, five_drafts ! 2,
      edited_draft\<lparr>draft_id := ''d4'', gmail_draft_id := Some ''ghi789''\<rparr>, five_drafts ! 4]"
    by (simp add: five_drafts_def five_fetch_def sync_draft_def reconcile_def py_or_def
        truthy_def meeting_draft_def local_draft_def edited_snapshot_def edited_draft_def)
  show ?thesis
    using ch list_fetches_referenced_and_commits_once [of five_fetch True five_drafts]
    by (simp add: prod_eq_iff refs res five_fetch_def)
qed

text \<open>
  C7 as stated fails: when the fetched content equals the local record, no record
  changes and the list call commits all the same.
\<close>

theorem list_commits_without_change_counterexample:
  "list_drafts_tool (\<lambda>_. Some same_snapshot) True [meeting_draft] =
     ([FetchGmailDraft ''abc123'', DbCommit], Inr [meeting_draft])"
  by (simp add: list_drafts_tool_def sync_draft_def reconcile_def py_or_def truthy_def
      meeting_draft_def same_snapshot_def)



section \<open>The claim about the fetcher\<close>

text \<open>
  C9. For every client and every remote reference the fetcher returns, and never raises:
  its result is either \<open>None\<close> or a snapshot whose three fields are strings. A message
  with no header and no plain-text part gives the snapshot of three empty strings, which
  is a snapshot and not \<open>None\<close>.
\<close>

theorem fetch_gmail_draft_returns:
  "(fetch_gmail_draft client gid = Inr None \<or>
    (\<exists>t s b. fetch_gmail_draft client gid =
       Inr (Some \<lparr>gmail_content.to_email = Some t, subject = Some s, body = Some b\<rparr>))) \<and>
   (get_service client = Inr True \<and> drafts_get client gid = Inr (Some raw) \<and>
    decode_message client raw = Inr \<lparr>headers = [], parts = []\<rparr> \<longrightarrow>
      fetch_gmail_draft client gid =
        Inr (Some \<lparr>gmail_content.to_email = Some [], subject = Some [], body = Some []\<rparr>))"
  by (auto simp: fetch_gmail_draft_def fetch_steps_def header_def plain_body_def
      split: sum.splits option.splits)

theorem fetch_gmail_draft_returns_witness:
  "fetch_gmail_draft bare_client ''abc123'' =
     Inr (Some \<lparr>gmail_content.to_email = Some [], subject = Some [], body = Some []\<rparr>) \<and>
   fetch_gmail_draft bare_client ''deleted'' = Inr None"
proof -
  have h: "get_service bare_client = Inr True \<and>
      drafts_get bare_client ''abc123'' = Inr (Some ''raw'') \<and>
      decode_message bare_client ''raw'' = Inr \<lparr>headers = [], parts = []\<rparr>"
    by (simp add: bare_client_def)
  have "fetch_gmail_draft bare_client ''deleted'' = Inr None"
    by (simp add: fetch_gmail_draft_def fetch_steps_def bare_client_def)
  with h fetch_gmail_draft_returns [of bare_client "''abc123''" "''raw''"]
  show ?thesis by simp
qed

section \<open>The claim about the message handler\<close>

lemma owner_message_is_answered:
  "handleMessage restricted echo_world private_chat owner_message =
     [SendStateTyping, PostChat ''628118491177@c.us'' ''show my drafts'' None, ClearState,
      Reply ''show my drafts''] \<and>
   handleMessage_attachments restricted echo_world private_chat owner_message =
     [DownloadMedia, SendStateTyping, PostChat ''628118491177@c.us'' ''show my drafts'' None,
      ClearState, Reply ''show my drafts'']"
  by (simp add: handleMessage_def handleMessage_attachments_def access_denied_def
      phoneNumber_def blank_def js_space_def respond_def sendMessageToAgent_def attachment_def
      restricted_def echo_world_def private_chat_def owner_message_def stranger_message_def)

text \<open>
  C10. When the list of allowed numbers is not empty and the part of the sender's user
  id before \<^verbatim>\<open>@\<close> is not in it, the handler returns having done nothing: no typing
  indicator, no request to the backend, no reply, and no download of an attachment. This
  holds for both versions of the handler, whatever the message, the chat and the world.
\<close>

theorem unauthorized_sender_is_ignored:
  assumes "allowedNumbers cfg \<noteq> []"
    and "takeWhile (\<lambda>c. c \<noteq> CHR ''@'') (from' msg) \<notin> set (allowedNumbers cfg)"
  shows "handleMessage cfg w ch msg = [] \<and> handleMessage_attachments cfg w ch msg = []"
proof -
  from assms have "access_denied cfg (from' msg)"
    by (simp add: access_denied_def phoneNumber_def)
  then show ?thesis
    by (simp add: handleMessage_def handleMessage_attachments_def)
qed

theorem unauthorized_sender_is_ignored_witness:
  "allowedNumbers restricted \<noteq> [] \<and>
   takeWhile (\<lambda>c. c \<noteq> CHR ''@'') (from' stranger_message) = ''15550001111'' \<and>
   handleMessage restricted echo_world private_chat stranger_message = [] \<and>
   handleMessage_attachments restricted echo_world private_chat stranger_message = []"
proof -
  have a: "allowedNumbers restricted \<noteq> []" by (simp add: restricted_def)
  have p: "takeWhile (\<lambda>c. c \<noteq> CHR ''@'') (from' stranger_message) = ''15550001111''"
    by (simp add: stranger_message_def)
  have b: "takeWhile (\<lambda>c. c \<noteq> CHR ''@'') (from' stranger_message) \<notin> set (allowedNumbers restricted)"
    by (simp add: p restricted_def)
  show ?thesis
    using a p unauthorized_sender_is_ignored [OF a b, of echo_world private_chat] by simp
qed

end
